theory Spec2Isabelle
  imports Main
begin

section \<open>JavaScript values\<close>

text \<open>
  An optional property of an options object. The key can be missing, present with the
  value \<^verbatim>\<open>undefined\<close>, or present with a value of its declared type. Object spread
  (\<^verbatim>\<open>{...a, ...b}\<close>) copies every own key of \<^verbatim>\<open>b\<close>, the undefined ones included, so
  the three cases are kept apart.
\<close>

datatype 'a property = Absent | Undefined | Given 'a

text \<open>The values an option bag forwarded to the minifier can hold.\<close>

datatype jsval = JUndefined | JBool bool | JStr string | JObj "(string \<times> jsval) list"

type_synonym bag = "string \<rightharpoonup> jsval"

fun truthy :: "jsval \<Rightarrow> bool" where
  "truthy JUndefined = False"
| "truthy (JBool b) = b"
| "truthy (JStr s) = (s \<noteq> [])"
| "truthy (JObj kvs) = True"

text \<open>One key of \<^verbatim>\<open>{...earlier, ...later}\<close>: what the key holds after the spread
  (\<open>None\<close> is \<^verbatim>\<open>undefined\<close>).\<close>

fun spread_key :: "'a option \<Rightarrow> 'a property \<Rightarrow> 'a option" where
  "spread_key earlier Absent = earlier"
| "spread_key earlier Undefined = None"
| "spread_key earlier (Given v) = Some v"

text \<open>\<^verbatim>\<open>x || d\<close> for a string-valued optional property: a missing, undefined or empty
  string is falsy.\<close>

fun or_default :: "string property \<Rightarrow> string \<Rightarrow> string" where
  "or_default (Given s) d = (if s \<noteq> [] then s else d)"
| "or_default Absent d = d"
| "or_default Undefined d = d"

text \<open>\<^verbatim>\<open>String.prototype.includes\<close>: the second string occurs in the first as a
  contiguous run.\<close>

fun starts_with :: "'a list \<Rightarrow> 'a list \<Rightarrow> bool" where
  "starts_with s [] = True"
| "starts_with [] (c # t) = False"
| "starts_with (a # s) (c # t) = (a = c \<and> starts_with s t)"

fun str_includes :: "'a list \<Rightarrow> 'a list \<Rightarrow> bool" where
  "str_includes [] t = (t = [])"
| "str_includes (a # s) t = (starts_with (a # s) t \<or> str_includes s t)"

section \<open>Framework detection\<close>

text \<open>The union type \<^verbatim>\<open>'sveltekit' | 'react' | 'vue' | 'vanilla' | 'auto'\<close>.\<close>

datatype framework = Auto | SvelteKit | React | Vue | Vanilla

text \<open>
  The parsed \<^verbatim>\<open>package.json\<close>: its two dependency sections, each from package name to
  version string (a missing section spreads to nothing, so it is the empty map).
  \<open>None\<close> stands for a manifest that cannot be read or parsed: \<^verbatim>\<open>readFileSync\<close> or
  \<^verbatim>\<open>JSON.parse\<close> throws and the \<^verbatim>\<open>catch\<close> branch runs.
\<close>

record package_json =
  dependencies :: "string \<rightharpoonup> string"
  devDependencies :: "string \<rightharpoonup> string"

text \<open>\<^verbatim>\<open>if (deps[k])\<close>: the key is looked up and its value tested for truthiness; the
  empty string is falsy. \<^verbatim>\<open>detectFramework\<close> is lines 62 to 75 of \<^verbatim>\<open>src/index.ts\<close>; the
  merged \<^verbatim>\<open>deps\<close> object is \<^verbatim>\<open>{...dependencies, ...devDependencies}\<close>, where a later key
  overrides an earlier one.\<close>

definition dep_truthy :: "(string \<rightharpoonup> string) \<Rightarrow> string \<Rightarrow> bool" where
  "dep_truthy deps k = (case deps k of None \<Rightarrow> False | Some v \<Rightarrow> v \<noteq> [])"

definition detectFramework :: "package_json option \<Rightarrow> framework" where
  "detectFramework manifest =
     (case manifest of
        None \<Rightarrow> Vanilla
      | Some packageJson \<Rightarrow>
          (let deps = dependencies packageJson ++ devDependencies packageJson in
           if dep_truthy deps ''@sveltejs/kit'' then SvelteKit
           else if dep_truthy deps ''react'' \<or> dep_truthy deps ''@vitejs/plugin-react'' then React
           else if dep_truthy deps ''vue'' \<or> dep_truthy deps ''@vitejs/plugin-vue'' then Vue
           else Vanilla))"

fun getDefaultSourceDir :: "framework \<Rightarrow> string" where
  "getDefaultSourceDir SvelteKit = ''static''"
| "getDefaultSourceDir fw = ''public''"

section \<open>The bundle filter\<close>

text \<open>The output options the bundler hands to the hook; only \<^verbatim>\<open>dir\<close> is read, and it
  may be undefined. \<^verbatim>\<open>shouldProcessBundle\<close> (lines 90 to 104) starts with
  \<^verbatim>\<open>const dir = bundleOptions.dir || ''\<close>; its \<^verbatim>\<open>switch\<close> sends every framework but
  \<^verbatim>\<open>'sveltekit'\<close> to the default branch.\<close>

record bundle_options =
  dir :: "string option"

definition dir_or_empty :: "bundle_options \<Rightarrow> string" where
  "dir_or_empty bundleOptions = (case dir bundleOptions of None \<Rightarrow> [] | Some d \<Rightarrow> d)"

fun shouldProcessBundle :: "bundle_options \<Rightarrow> framework \<Rightarrow> bool" where
  "shouldProcessBundle bundleOptions SvelteKit = str_includes (dir_or_empty bundleOptions) ''client''"
| "shouldProcessBundle bundleOptions fw =
     (\<not> str_includes (dir_or_empty bundleOptions) ''server'' \<and> \<not> str_includes (dir_or_empty bundleOptions) ''ssr'')"

section \<open>Resolving the configuration\<close>

text \<open>
  The repository holds two drafts of the plugin: \<^verbatim>\<open>src/index.ts\<close>, which minifies with
  esbuild, and a draft that minifies with terser. They share \<^verbatim>\<open>detectFramework\<close>,
  \<^verbatim>\<open>getDefaultSourceDir\<close>, \<^verbatim>\<open>shouldProcessBundle\<close> and the frame of \<^verbatim>\<open>writeBundle\<close> word for
  word, and differ in the option bag, in how the options are merged and in the per-file
  body of the loop. Definitions that differ carry the suffix \<open>_esbuild\<close> or \<open>_terser\<close>.

  The user's options object (\<^verbatim>\<open>MinifyStaticOptions\<close>); the bag is \<^verbatim>\<open>esBuildOptions\<close> in
  the esbuild draft and \<^verbatim>\<open>terserOptions\<close> in the terser draft.
\<close>

record user_options =
  user_sourceDir :: "string property"
  user_files :: "string list property"
  user_verbose :: "bool property"
  user_outputDir :: "string property"
  user_framework :: "framework property"

record esbuild_user_options = user_options +
  user_esBuildOptions :: "bag property"

record terser_user_options = user_options +
  user_terserOptions :: "bag property"

text \<open>The merged \<^verbatim>\<open>options\<close> object the hook closes over; \<open>None\<close> is a key holding
  \<^verbatim>\<open>undefined\<close>.\<close>

record options =
  sourceDir :: "string option"
  files :: "string list option"
  verbose :: "bool option"
  outputDir :: "string option"
  framework :: framework

record esbuild_options = options +
  esBuildOptions :: "bag option"

record terser_options = options +
  terserOptions :: bag

definition default_files :: "string list" where
  "default_files = [''**/*.js'', ''**/*.mjs'']"

definition default_esBuildOptions :: bag where
  "default_esBuildOptions =
     [''target'' \<mapsto> JStr ''es2020'', ''minify'' \<mapsto> JBool True,
      ''format'' \<mapsto> JStr ''iife'', ''loader'' \<mapsto> JStr ''js'']"

definition default_terserOptions :: bag where
  "default_terserOptions =
     [''compress'' \<mapsto> JBool True, ''mangle'' \<mapsto> JBool True,
      ''format'' \<mapsto> JObj [(''comments'', JBool False)]]"

text \<open>\<^verbatim>\<open>userOptions.framework === 'auto' ? detectFramework() : userOptions.framework || 'vanilla'\<close>\<close>

fun detectedFramework :: "package_json option \<Rightarrow> framework property \<Rightarrow> framework" where
  "detectedFramework manifest (Given Auto) = detectFramework manifest"
| "detectedFramework manifest (Given fw) = fw"
| "detectedFramework manifest Absent = Vanilla"
| "detectedFramework manifest Undefined = Vanilla"

text \<open>\<^verbatim>\<open>...userOptions.terserOptions\<close>: spreading a missing or undefined bag adds no key.\<close>

fun spread_bag :: "bag property \<Rightarrow> bag" where
  "spread_bag (Given b) = b"
| "spread_bag Absent = Map.empty"
| "spread_bag Undefined = Map.empty"

text \<open>
  \<^verbatim>\<open>minifyStatic\<close> of the esbuild draft (\<^verbatim>\<open>src/index.ts\<close>, lines 106 to 114), up to the
  \<^verbatim>\<open>options\<close> object it builds:
  \<^verbatim>\<open>{...defaultOptions, sourceDir: userOptions.sourceDir || getDefaultSourceDir(detectedFramework),
     ...userOptions, framework: detectedFramework}\<close>.
  The manifest is what \<^verbatim>\<open>detectFramework\<close> would read.
\<close>

definition minifyStatic_esbuild :: "package_json option \<Rightarrow> esbuild_user_options \<Rightarrow> esbuild_options" where
  "minifyStatic_esbuild manifest u =
     (let fw = detectedFramework manifest (user_framework u) in
      \<lparr> sourceDir = spread_key (Some (or_default (user_sourceDir u) (getDefaultSourceDir fw))) (user_sourceDir u),
        files = spread_key (Some default_files) (user_files u),
        verbose = spread_key (Some False) (user_verbose u),
        outputDir = spread_key None (user_outputDir u),
        framework = fw,
        esBuildOptions = spread_key (Some default_esBuildOptions) (user_esBuildOptions u) \<rparr>)"

text \<open>
  \<^verbatim>\<open>minifyStatic\<close> of the terser draft (lines 246 to 258 of its file): as above, with
  \<^verbatim>\<open>terserOptions: {...defaultOptions.terserOptions, ...userOptions.terserOptions}\<close>
  written after the spread of the user's options.
\<close>

definition minifyStatic_terser :: "package_json option \<Rightarrow> terser_user_options \<Rightarrow> terser_options" where
  "minifyStatic_terser manifest u =
     (let fw = detectedFramework manifest (user_framework u) in
      \<lparr> sourceDir = spread_key (Some (or_default (user_sourceDir u) (getDefaultSourceDir fw))) (user_sourceDir u),
        files = spread_key (Some default_files) (user_files u),
        verbose = spread_key (Some False) (user_verbose u),
        outputDir = spread_key None (user_outputDir u),
        framework = fw,
        terserOptions = default_terserOptions ++ spread_bag (user_terserOptions u) \<rparr>)"

section \<open>Paths\<close>

text \<open>
  A path value of the program is modelled by the absolute location it denotes: the list
  of its segments from the root. \<^verbatim>\<open>path.join\<close> appends the segments of its further
  arguments (empty and \<^verbatim>\<open>.\<close> segments vanish in its normalisation), \<^verbatim>\<open>path.dirname\<close>
  drops the last segment, and a relative path handed to \<^verbatim>\<open>node:fs\<close> is taken from the
  working directory. Segments \<^verbatim>\<open>..\<close> and symbolic links are not interpreted.
\<close>

type_synonym path = "string list"

fun segs_acc :: "string \<Rightarrow> string \<Rightarrow> string list" where
  "segs_acc acc [] = (if acc = [] \<or> acc = ''.'' then [] else [acc])"
| "segs_acc acc (c # cs) =
     (if c = CHR ''/'' then (if acc = [] \<or> acc = ''.'' then [] else [acc]) @ segs_acc [] cs
      else segs_acc (acc @ [c]) cs)"

definition segments :: "string \<Rightarrow> path" where
  "segments s = segs_acc [] s"

definition join :: "path \<Rightarrow> string \<Rightarrow> path" where
  "join p s = p @ segments s"

definition dirname :: "path \<Rightarrow> path" where
  "dirname p = butlast p"

definition resolve :: "string \<Rightarrow> string \<Rightarrow> path" where
  "resolve workdir s = (if starts_with s ''/'' then segments s else segments workdir @ segments s)"

text \<open>\<^verbatim>\<open>path.extname\<close>: from the last dot of the last segment, unless that dot is its
  first character.\<close>

definition extname :: "string \<Rightarrow> string" where
  "extname f =
     (case rev (segments f) of
        [] \<Rightarrow> []
      | b # bs \<Rightarrow>
          (let suf = takeWhile (\<lambda>c. c \<noteq> CHR ''.'') (rev b) in
           if length suf = length b \<or> Suc (length suf) = length b \<or> b = ''..'' then []
           else CHR ''.'' # rev suf))"

definition to_lower :: "char \<Rightarrow> char" where
  "to_lower c =
     (case map_of (zip ''ABCDEFGHIJKLMNOPQRSTUVWXYZ'' ''abcdefghijklmnopqrstuvwxyz'') c of
        None \<Rightarrow> c
      | Some d \<Rightarrow> d)"

section \<open>The file system, the console and the external collaborators\<close>

text \<open>
  The file system is a map from absolute paths to nodes; the root is a directory. File
  contents are their UTF-8 bytes, so \<^verbatim>\<open>Buffer.byteLength(s, 'utf-8')\<close> is \<open>length s\<close>.
\<close>

datatype node = File string | Dir

type_synonym filesystem = "path \<rightharpoonup> node"

datatype fs_call = ReadFile path | Stat path | Unlink path | Mkdir path | WriteFile path

text \<open>What a call can throw. \<open>EIO\<close> stands for any failure of the call that the shape of
  the tree does not explain (permissions, a full disk); \<open>Thrown\<close> for whatever the glob
  library or the minifier throws.\<close>

datatype exn =
    ENOENT fs_call | EISDIR fs_call | ENOTDIR fs_call | EIO fs_call
  | TypeError string | Thrown string

text \<open>
  The collaborators the plugin does not own: the working directory, which file system
  calls fail for outside reasons, \<^verbatim>\<open>glob.sync\<close> (patterns, \<^verbatim>\<open>cwd\<close>; it returns paths
  relative to \<^verbatim>\<open>cwd\<close> or throws), esbuild's \<^verbatim>\<open>transformSync\<close> (its result always has a
  \<^verbatim>\<open>code\<close> string) and terser's \<^verbatim>\<open>minify\<close> (its result's \<^verbatim>\<open>code\<close> may be undefined).
\<close>

record env =
  cwd :: string
  io_fault :: "fs_call \<Rightarrow> bool"
  glob_sync :: "filesystem \<Rightarrow> string list \<Rightarrow> path \<Rightarrow> exn + string list"
  transformSync :: "string \<Rightarrow> bag \<Rightarrow> exn + string"
  minify :: "string \<Rightarrow> bag \<Rightarrow> exn + string option"

datatype level = LOG | WARN | ERROR

datatype message =
    SkippingBundle "string option" framework
  | NoOutputDirectory
  | LookingForStaticFiles string framework
  | NoStaticFilesFound
  | SourceFileNotFound path
  | TerserReturnedEmpty string
  | CannotUnlinkDirectory path
  | FailedToUnlink path exn
  | CouldNotReplace path
  | FileMinified string nat nat
  | ErrorMinifying string exn
  | MinifiedSummary nat "int option"
  | PluginError exn

record world =
  fs :: filesystem
  console :: "(level \<times> message) list"

definition emit :: "level \<Rightarrow> message \<Rightarrow> world \<Rightarrow> world" where
  "emit l m w = w\<lparr>console := console w @ [(l, m)]\<rparr>"

definition node_at :: "filesystem \<Rightarrow> path \<Rightarrow> node option" where
  "node_at f p = (if p = [] then Some Dir else f p)"

definition existsSync :: "filesystem \<Rightarrow> path \<Rightarrow> bool" where
  "existsSync f p = (node_at f p \<noteq> None)"

definition readFileSync :: "env \<Rightarrow> filesystem \<Rightarrow> path \<Rightarrow> exn + string" where
  "readFileSync e f p =
     (if io_fault e (ReadFile p) then Inl (EIO (ReadFile p))
      else case node_at f p of
             None \<Rightarrow> Inl (ENOENT (ReadFile p))
           | Some Dir \<Rightarrow> Inl (EISDIR (ReadFile p))
           | Some (File c) \<Rightarrow> Inr c)"

definition statSync :: "env \<Rightarrow> filesystem \<Rightarrow> path \<Rightarrow> exn + node" where
  "statSync e f p =
     (if io_fault e (Stat p) then Inl (EIO (Stat p))
      else case node_at f p of
             None \<Rightarrow> Inl (ENOENT (Stat p))
           | Some n \<Rightarrow> Inr n)"

fun isFile :: "node \<Rightarrow> bool" where
  "isFile (File c) = True"
| "isFile Dir = False"

text \<open>\<^verbatim>\<open>unlinkSync\<close> removes a regular file; on a directory it throws.\<close>

definition unlinkSync :: "env \<Rightarrow> filesystem \<Rightarrow> path \<Rightarrow> exn + filesystem" where
  "unlinkSync e f p =
     (if io_fault e (Unlink p) then Inl (EIO (Unlink p))
      else case node_at f p of
             None \<Rightarrow> Inl (ENOENT (Unlink p))
           | Some Dir \<Rightarrow> Inl (EISDIR (Unlink p))
           | Some (File c) \<Rightarrow> Inr (f(p := None)))"

text \<open>\<^verbatim>\<open>mkdirSync(p, {recursive: true})\<close>: every missing directory on the way to \<open>p\<close> is
  created; a regular file on the way makes it throw.\<close>

fun mkdir_p :: "filesystem \<Rightarrow> path \<Rightarrow> path \<Rightarrow> path \<Rightarrow> exn + filesystem" where
  "mkdir_p f target pre [] = Inr f"
| "mkdir_p f target pre (s # rest) =
     (case f (pre @ [s]) of
        Some (File c) \<Rightarrow> Inl (ENOTDIR (Mkdir target))
      | Some Dir \<Rightarrow> mkdir_p f target (pre @ [s]) rest
      | None \<Rightarrow> mkdir_p (f(pre @ [s] \<mapsto> Dir)) target (pre @ [s]) rest)"

definition mkdirSync :: "env \<Rightarrow> filesystem \<Rightarrow> path \<Rightarrow> exn + filesystem" where
  "mkdirSync e f p = (if io_fault e (Mkdir p) then Inl (EIO (Mkdir p)) else mkdir_p f p [] p)"

text \<open>\<^verbatim>\<open>writeFileSync\<close> creates or replaces a regular file in an existing directory.\<close>

definition writeFileSync :: "env \<Rightarrow> filesystem \<Rightarrow> path \<Rightarrow> string \<Rightarrow> exn + filesystem" where
  "writeFileSync e f p content =
     (if io_fault e (WriteFile p) then Inl (EIO (WriteFile p))
      else case node_at f p of
             Some Dir \<Rightarrow> Inl (EISDIR (WriteFile p))
           | other \<Rightarrow>
               (case node_at f (dirname p) of
                  None \<Rightarrow> Inl (ENOENT (WriteFile p))
                | Some (File c) \<Rightarrow> Inl (ENOTDIR (WriteFile p))
                | Some Dir \<Rightarrow> Inr (f(p \<mapsto> File content))))"

text \<open>\<^verbatim>\<open>glob.sync(options.files, {cwd: sourceDir, onlyFiles: true})\<close>; fast-glob rejects
  patterns that are not strings with a \<^verbatim>\<open>TypeError\<close>.\<close>

definition glob_files :: "env \<Rightarrow> filesystem \<Rightarrow> string list option \<Rightarrow> path \<Rightarrow> exn + string list" where
  "glob_files e f patterns srcDir =
     (case patterns of
        None \<Rightarrow> Inl (TypeError ''Patterns must be a string (non empty) or an array of strings'')
      | Some ps \<Rightarrow> glob_sync e f ps srcDir)"

section \<open>The per-file steps of the two drafts\<close>

text \<open>
  The loop's counters \<^verbatim>\<open>minifiedCount\<close> and \<^verbatim>\<open>totalSavings\<close>, and the exit a file's
  \<^verbatim>\<open>try\<close> body takes when it does not throw: the normal end after the write (with the
  byte lengths before and after), or one of the \<^verbatim>\<open>continue\<close> statements.
\<close>

record summary =
  minifiedCount :: nat
  totalSavings :: int

datatype outcome = Minified nat nat | SkippedMissing | SkippedEmptyResult | SkippedNotReplaced

text \<open>\<^verbatim>\<open>if (options.verbose)\<close>\<close>

definition is_verbose :: "'a options_scheme \<Rightarrow> bool" where
  "is_verbose opts = (verbose opts = Some True)"

text \<open>\<^verbatim>\<open>options.outputDir ? join(outputDir, options.outputDir, file) : join(outputDir, file)\<close>\<close>

definition outputPathOf :: "'a options_scheme \<Rightarrow> path \<Rightarrow> string \<Rightarrow> path" where
  "outputPathOf opts outRoot file =
     (case outputDir opts of
        None \<Rightarrow> join outRoot file
      | Some sub \<Rightarrow> if sub \<noteq> [] then join (join outRoot sub) file else join outRoot file)"

text \<open>After \<^verbatim>\<open>writeFileSync\<close> returned: \<^verbatim>\<open>minifiedCount++\<close>, and under
  \<^verbatim>\<open>if (options.verbose)\<close> the byte lengths, \<^verbatim>\<open>totalSavings += savings\<close> and the
  progress line.\<close>

definition countFile :: "'a options_scheme \<Rightarrow> string \<Rightarrow> string \<Rightarrow> string \<Rightarrow> world \<times> summary \<Rightarrow> world \<times> summary" where
  "countFile opts file code minified ws =
     (let counted = (snd ws)\<lparr>minifiedCount := Suc (minifiedCount (snd ws))\<rparr> in
      if is_verbose opts then
        (emit LOG (FileMinified file (length code) (length minified)) (fst ws),
         counted\<lparr>totalSavings := totalSavings counted + (int (length code) - int (length minified))\<rparr>)
      else (fst ws, counted))"

subsection \<open>The terser draft\<close>

text \<open>\<^verbatim>\<open>safeUnlink\<close> (lines 226 to 244 of the terser draft): true when nothing is in the
  way any more, false with a warning when the path holds something that is not a regular
  file or a call fails.\<close>

definition safeUnlink :: "env \<Rightarrow> path \<Rightarrow> world \<Rightarrow> bool \<times> world" where
  "safeUnlink e filePath w =
     (if \<not> existsSync (fs w) filePath then (True, w)
      else case statSync e (fs w) filePath of
             Inl err \<Rightarrow> (False, emit WARN (FailedToUnlink filePath err) w)
           | Inr stats \<Rightarrow>
               if isFile stats then
                 (case unlinkSync e (fs w) filePath of
                    Inl err \<Rightarrow> (False, emit WARN (FailedToUnlink filePath err) w)
                  | Inr f' \<Rightarrow> (True, w\<lparr>fs := f'\<rparr>))
               else (False, emit WARN (CannotUnlinkDirectory filePath) w))"

text \<open>\<^verbatim>\<open>if (!existsSync(outputDirPath)) { mkdirSync(outputDirPath, { recursive: true }) }\<close>\<close>

definition ensureOutputDir :: "env \<Rightarrow> filesystem \<Rightarrow> path \<Rightarrow> exn + filesystem" where
  "ensureOutputDir e f outputDirPath =
     (if \<not> existsSync f outputDirPath then mkdirSync e f outputDirPath else Inr f)"

text \<open>\<^verbatim>\<open>if (existsSync(outputPath)) { if (!safeUnlink(outputPath)) ... }\<close>: whether the
  write may go ahead, and the world after the attempt.\<close>

definition removeExisting_terser :: "env \<Rightarrow> path \<Rightarrow> world \<Rightarrow> bool \<times> world" where
  "removeExisting_terser e outputPath w =
     (if existsSync (fs w) outputPath then safeUnlink e outputPath w else (True, w))"

text \<open>The body from \<^verbatim>\<open>dirname(outputPath)\<close> to the end of the \<^verbatim>\<open>try\<close> block.\<close>

definition replaceOutput_terser ::
  "env \<Rightarrow> 'a options_scheme \<Rightarrow> string \<Rightarrow> string \<Rightarrow> string \<Rightarrow> path \<Rightarrow> world \<times> summary
     \<Rightarrow> (exn + outcome) \<times> world \<times> summary" where
  "replaceOutput_terser e opts file code minified outputPath ws =
     (case ensureOutputDir e (fs (fst ws)) (dirname outputPath) of
        Inl err \<Rightarrow> (Inl err, ws)
      | Inr f1 \<Rightarrow>
          (case removeExisting_terser e outputPath ((fst ws)\<lparr>fs := f1\<rparr>) of
             (False, w2) \<Rightarrow> (Inr SkippedNotReplaced, emit WARN (CouldNotReplace outputPath) w2, snd ws)
           | (True, w2) \<Rightarrow>
               (case writeFileSync e (fs w2) outputPath minified of
                  Inl err \<Rightarrow> (Inl err, w2, snd ws)
                | Inr f3 \<Rightarrow>
                    (Inr (Minified (length code) (length minified)),
                     countFile opts file code minified (w2\<lparr>fs := f3\<rparr>, snd ws)))))"

text \<open>The \<^verbatim>\<open>try\<close> body of the terser draft's loop for one file (lines 302 to 352), from
  the two paths computed just before it.\<close>

definition tryFile_terser ::
  "env \<Rightarrow> terser_options \<Rightarrow> path \<Rightarrow> path \<Rightarrow> string \<Rightarrow> world \<times> summary
     \<Rightarrow> (exn + outcome) \<times> world \<times> summary" where
  "tryFile_terser e opts srcDir outRoot file ws =
     (let sourcePath = join srcDir file;
          outputPath = outputPathOf opts outRoot file in
      if \<not> existsSync (fs (fst ws)) sourcePath then
        (Inr SkippedMissing,
         (if is_verbose opts then emit WARN (SourceFileNotFound sourcePath) (fst ws) else fst ws), snd ws)
      else case readFileSync e (fs (fst ws)) sourcePath of
             Inl err \<Rightarrow> (Inl err, ws)
           | Inr code \<Rightarrow>
               (case minify e code (terserOptions opts) of
                  Inl err \<Rightarrow> (Inl err, ws)
                | Inr None \<Rightarrow>
                    (Inr SkippedEmptyResult, emit WARN (TerserReturnedEmpty file) (fst ws), snd ws)
                | Inr (Some minified) \<Rightarrow>
                    if minified = [] then
                      (Inr SkippedEmptyResult, emit WARN (TerserReturnedEmpty file) (fst ws), snd ws)
                    else replaceOutput_terser e opts file code minified outputPath ws))"

subsection \<open>The esbuild draft (\<^verbatim>\<open>src/index.ts\<close>)\<close>

text \<open>\<^verbatim>\<open>let loader = options.esBuildOptions.loader || 'js'\<close>, overridden by the file's
  extension.\<close>

definition pickLoader :: "bag \<Rightarrow> string \<Rightarrow> jsval" where
  "pickLoader b file =
     (let ext = map to_lower (extname file);
          loader = (case b ''loader'' of None \<Rightarrow> JStr ''js'' | Some v \<Rightarrow> if truthy v then v else JStr ''js'') in
      if ext = ''.ts'' then JStr ''ts''
      else if ext = ''.jsx'' then JStr ''jsx''
      else if ext = ''.tsx'' then JStr ''tsx''
      else loader)"

text \<open>
  The body from \<^verbatim>\<open>dirname(outputPath)\<close> to the end of the \<^verbatim>\<open>try\<close> block. The draft
  calls \<^verbatim>\<open>require('fs').mkDirSync\<close>, which is not a function of \<^verbatim>\<open>node:fs\<close>, and it
  passes \<^verbatim>\<open>outputDirPath\<close>, not \<^verbatim>\<open>outputPath\<close>, to \<^verbatim>\<open>unlinkSync\<close>.
\<close>

definition removeExisting_esbuild :: "env \<Rightarrow> filesystem \<Rightarrow> path \<Rightarrow> exn + filesystem" where
  "removeExisting_esbuild e f outputPath =
     (if existsSync f outputPath then unlinkSync e f (dirname outputPath) else Inr f)"

definition replaceOutput_esbuild ::
  "env \<Rightarrow> 'a options_scheme \<Rightarrow> string \<Rightarrow> string \<Rightarrow> string \<Rightarrow> path \<Rightarrow> world \<times> summary
     \<Rightarrow> (exn + outcome) \<times> world \<times> summary" where
  "replaceOutput_esbuild e opts file code minified outputPath ws =
     (if \<not> existsSync (fs (fst ws)) (dirname outputPath) then
        (Inl (TypeError ''require(...).mkDirSync is not a function''), ws)
      else case removeExisting_esbuild e (fs (fst ws)) outputPath of
             Inl err \<Rightarrow> (Inl err, ws)
           | Inr f1 \<Rightarrow>
               (case writeFileSync e f1 outputPath minified of
                  Inl err \<Rightarrow> (Inl err, (fst ws)\<lparr>fs := f1\<rparr>, snd ws)
                | Inr f2 \<Rightarrow>
                    (Inr (Minified (length code) (length minified)),
                     countFile opts file code minified ((fst ws)\<lparr>fs := f2\<rparr>, snd ws))))"

text \<open>The \<^verbatim>\<open>try\<close> body of the esbuild draft's loop for one file (\<^verbatim>\<open>src/index.ts\<close>, lines
  158 to 210).\<close>

definition tryFile_esbuild ::
  "env \<Rightarrow> esbuild_options \<Rightarrow> path \<Rightarrow> path \<Rightarrow> string \<Rightarrow> world \<times> summary
     \<Rightarrow> (exn + outcome) \<times> world \<times> summary" where
  "tryFile_esbuild e opts srcDir outRoot file ws =
     (let sourcePath = join srcDir file;
          outputPath = outputPathOf opts outRoot file in
      if \<not> existsSync (fs (fst ws)) sourcePath then
        (Inr SkippedMissing,
         (if is_verbose opts then emit WARN (SourceFileNotFound sourcePath) (fst ws) else fst ws), snd ws)
      else case readFileSync e (fs (fst ws)) sourcePath of
             Inl err \<Rightarrow> (Inl err, ws)
           | Inr code \<Rightarrow>
               (case esBuildOptions opts of
                  None \<Rightarrow> (Inl (TypeError ''Cannot read properties of undefined (reading loader)''), ws)
                | Some b \<Rightarrow>
                    (case transformSync e code (b(''loader'' \<mapsto> pickLoader b file)) of
                       Inl err \<Rightarrow> (Inl err, ws)
                     | Inr minified \<Rightarrow> replaceOutput_esbuild e opts file code minified outputPath ws)))"

section \<open>The hook\<close>

text \<open>
  The \<^verbatim>\<open>for\<close> loop with its per-file \<^verbatim>\<open>try\<close>/\<^verbatim>\<open>catch\<close>: a body that throws is logged
  with \<^verbatim>\<open>console.error\<close> and the loop goes on. The first component lists, file by
  file, how the body ended.
\<close>

type_synonym file_step = "string \<Rightarrow> world \<times> summary \<Rightarrow> (exn + outcome) \<times> world \<times> summary"

fun minifyFiles :: "file_step \<Rightarrow> string list \<Rightarrow> world \<times> summary \<Rightarrow> (exn + outcome) list \<times> world \<times> summary" where
  "minifyFiles body [] ws = ([], ws)"
| "minifyFiles body (file # rest) ws =
     (case body file ws of
        (Inl err, w, s) \<Rightarrow>
          (let later = minifyFiles body rest (emit ERROR (ErrorMinifying file err) w, s) in
           (Inl err # fst later, snd later))
      | (Inr r, w, s) \<Rightarrow>
          (let later = minifyFiles body rest (w, s) in (Inr r # fst later, snd later)))"

text \<open>
  \<^verbatim>\<open>writeBundle\<close> (\<^verbatim>\<open>src/index.ts\<close>, lines 120 to 226), which the two drafts share word
  for word around the per-file body.
  \<open>Inl\<close> is an error thrown out of the hook, \<open>Inr\<close> the world the hook leaves when it
  returns. \<^verbatim>\<open>join(process.cwd(), options.sourceDir)\<close> stands before the \<^verbatim>\<open>try\<close>
  block, and \<^verbatim>\<open>path.join\<close> throws a \<^verbatim>\<open>TypeError\<close> on an argument that is not a string.
\<close>

definition writeBundle ::
  "(path \<Rightarrow> path \<Rightarrow> file_step) \<Rightarrow> env \<Rightarrow> 'a options_scheme \<Rightarrow> bundle_options \<Rightarrow> world \<Rightarrow> exn + world" where
  "writeBundle body e opts bundleOptions w =
     (if \<not> shouldProcessBundle bundleOptions (framework opts) then
        Inr (if is_verbose opts then emit LOG (SkippingBundle (dir bundleOptions) (framework opts)) w else w)
      else case sourceDir opts of
             None \<Rightarrow> Inl (TypeError ''The path argument must be of type string. Received undefined'')
           | Some sd \<Rightarrow>
               (let srcDir = join (segments (cwd e)) sd in
                if dir_or_empty bundleOptions = [] then Inr (emit WARN NoOutputDirectory w)
                else
                  (let w1 = (if is_verbose opts then emit LOG (LookingForStaticFiles sd (framework opts)) w else w) in
                   case glob_files e (fs w1) (files opts) srcDir of
                     Inl err \<Rightarrow> Inr (emit ERROR (PluginError err) w1)
                   | Inr filesToMinify \<Rightarrow>
                       if filesToMinify = [] then
                         Inr (if is_verbose opts then emit LOG NoStaticFilesFound w1 else w1)
                       else
                         (let run = minifyFiles (body srcDir (resolve (cwd e) (dir_or_empty bundleOptions)))
                                      filesToMinify (w1, \<lparr>minifiedCount = 0, totalSavings = 0\<rparr>);
                              w2 = fst (snd run); s = snd (snd run) in
                          if minifiedCount s > 0 then
                            Inr (emit LOG (MinifiedSummary (minifiedCount s)
                                   (if is_verbose opts \<and> totalSavings s > 0 then Some (totalSavings s) else None)) w2)
                          else Inr w2))))"

definition writeBundle_esbuild :: "env \<Rightarrow> esbuild_options \<Rightarrow> bundle_options \<Rightarrow> world \<Rightarrow> exn + world" where
  "writeBundle_esbuild e opts = writeBundle (tryFile_esbuild e opts) e opts"

definition writeBundle_terser :: "env \<Rightarrow> terser_options \<Rightarrow> bundle_options \<Rightarrow> world \<Rightarrow> exn + world" where
  "writeBundle_terser e opts = writeBundle (tryFile_terser e opts) e opts"

section \<open>The run summary, read off the loop\<close>





section \<open>A small project to run the hook on\<close>

text \<open>A stand-in for the minifier: it drops a trailing line comment and the blanks
  before it.\<close>

definition strip_comment :: "string \<Rightarrow> string" where
  "strip_comment code =
     rev (dropWhile (\<lambda>c. c = CHR '' '') (rev (takeWhile (\<lambda>c. c \<noteq> CHR ''/'') code)))"

text \<open>The project lives in \<^verbatim>\<open>/proj\<close>, no call fails for outside reasons, and the glob
  library finds \<^verbatim>\<open>a.js\<close>.\<close>

definition demo_env :: env where
  "demo_env =
     \<lparr> cwd = ''/proj'', io_fault = (\<lambda>c. False),
       glob_sync = (\<lambda>f ps d. Inr [''a.js'']),
       transformSync = (\<lambda>code b. Inr (strip_comment code)),
       minify = (\<lambda>code b. Inr (Some (strip_comment code))) \<rparr>"

text \<open>\<^verbatim>\<open>minifyStatic()\<close> and \<^verbatim>\<open>minifyStatic({})\<close>: no key is given.\<close>

definition no_options_esbuild :: esbuild_user_options where
  "no_options_esbuild =
     \<lparr> user_sourceDir = Absent, user_files = Absent, user_verbose = Absent,
       user_outputDir = Absent, user_framework = Absent, user_esBuildOptions = Absent \<rparr>"

definition no_options_terser :: terser_user_options where
  "no_options_terser =
     \<lparr> user_sourceDir = Absent, user_files = Absent, user_verbose = Absent,
       user_outputDir = Absent, user_framework = Absent, user_terserOptions = Absent \<rparr>"

text \<open>\<^verbatim>\<open>/proj/public/a.js\<close> with the given content, and an empty \<^verbatim>\<open>/proj/dist\<close>.\<close>

definition fs_with_source :: "string \<Rightarrow> filesystem" where
  "fs_with_source code =
     [[''proj''] \<mapsto> Dir, [''proj'', ''public''] \<mapsto> Dir,
      [''proj'', ''public'', ''a.js''] \<mapsto> File code, [''proj'', ''dist''] \<mapsto> Dir]"

text \<open>A manifest whose development dependencies name SvelteKit.\<close>

definition kit_manifest :: package_json where
  "kit_manifest =
     \<lparr>dependencies = Map.empty, devDependencies = [''@sveltejs/kit'' \<mapsto> ''^2.0.0'']\<rparr>"

text \<open>The same project with a second file, \<^verbatim>\<open>bad.js\<close>, found first, on which the
  minifier throws.\<close>

definition picky_env :: env where
  "picky_env =
     \<lparr> cwd = ''/proj'', io_fault = (\<lambda>c. False),
       glob_sync = (\<lambda>f ps d. Inr [''bad.js'', ''a.js'']),
       transformSync = (\<lambda>code b. if code = ''{'' then Inl (Thrown ''Unexpected end of file'')
                                  else Inr (strip_comment code)),
       minify = (\<lambda>code b. if code = ''{'' then Inl (Thrown ''Unexpected token'')
                           else Inr (Some (strip_comment code))) \<rparr>"

definition fs_with_bad_source :: filesystem where
  "fs_with_bad_source = (fs_with_source ''var x=1;   // comment'')([''proj'', ''public'', ''bad.js''] \<mapsto> File ''{'')"

section \<open>Facts about the building blocks\<close>

lemmas fs_defs = node_at_def existsSync_def readFileSync_def statSync_def unlinkSync_def
  mkdirSync_def writeFileSync_def glob_files_def

lemmas path_defs = segments_def join_def dirname_def resolve_def

lemmas run_defs = writeBundle_def writeBundle_esbuild_def writeBundle_terser_def
  tryFile_esbuild_def tryFile_terser_def replaceOutput_esbuild_def replaceOutput_terser_def
  ensureOutputDir_def removeExisting_terser_def removeExisting_esbuild_def
  safeUnlink_def countFile_def is_verbose_def outputPathOf_def emit_def dir_or_empty_def
  pickLoader_def extname_def to_lower_def

lemmas cfg_defs = minifyStatic_esbuild_def minifyStatic_terser_def default_files_def
  default_esBuildOptions_def default_terserOptions_def

lemmas demo_defs = demo_env_def no_options_esbuild_def no_options_terser_def fs_with_source_def
  strip_comment_def



lemma dep_truthy_iff: "dep_truthy deps k \<longleftrightarrow> (\<exists>v. deps k = Some v \<and> v \<noteq> [])"
  by (simp add: dep_truthy_def split: option.splits)

lemma detectFramework_not_Auto: "detectFramework m \<noteq> Auto"
  by (simp add: detectFramework_def Let_def split: option.splits)

lemma detectedFramework_not_Auto: "detectedFramework m f \<noteq> Auto"
  by (cases "(m, f)" rule: detectedFramework.cases) (simp_all add: detectFramework_not_Auto)

subsection \<open>File system calls\<close>

lemma mkdir_p_preserves:
  "mkdir_p f t pre rest = Inr f' \<Longrightarrow> f p = Some n \<Longrightarrow> f' p = Some n"
proof (induction rest arbitrary: f pre)
  case Nil
  then show ?case by simp
next
  case (Cons s rest)
  show ?case
  proof (cases "f (pre @ [s])")
    case None
    with Cons.prems have "mkdir_p (f(pre @ [s] \<mapsto> Dir)) t (pre @ [s]) rest = Inr f'" by simp
    moreover from None Cons.prems have "(f(pre @ [s] \<mapsto> Dir)) p = Some n" by auto
    ultimately show ?thesis by (rule Cons.IH)
  next
    case (Some nd)
    with Cons.prems show ?thesis
      by (cases nd) (auto intro: Cons.IH)
  qed
qed

lemma ensureOutputDir_preserves:
  "ensureOutputDir e f d = Inr f' \<Longrightarrow> f p = Some n \<Longrightarrow> f' p = Some n"
  by (auto simp: ensureOutputDir_def mkdirSync_def split: if_splits intro: mkdir_p_preserves)

lemma ensureOutputDir_existing:
  "existsSync f d \<Longrightarrow> ensureOutputDir e f d = Inr f"
  by (simp add: ensureOutputDir_def)

lemma unlinkSync_Inr:
  "unlinkSync e f p = Inr f' \<Longrightarrow> f' = f(p := None) \<and> (\<exists>c. f p = Some (File c))"
  by (auto simp: unlinkSync_def node_at_def split: if_splits option.splits node.splits)

lemma unlinkSync_directory:
  "node_at f p = Some Dir \<Longrightarrow> \<exists>err. unlinkSync e f p = Inl err"
  by (simp add: unlinkSync_def)

lemma writeFileSync_Inr:
  "writeFileSync e f p c = Inr f' \<Longrightarrow> f' = f(p \<mapsto> File c) \<and> f p \<noteq> Some Dir"
  by (auto simp: writeFileSync_def node_at_def split: if_splits option.splits node.splits)

lemma readFileSync_Inr:
  "readFileSync e f p = Inr code \<Longrightarrow> node_at f p = Some (File code)"
  by (auto simp: readFileSync_def split: if_splits option.splits node.splits)

subsection \<open>Replacing the destination in the terser draft\<close>

lemma safeUnlink_directory:
  "node_at (fs w) p = Some Dir \<Longrightarrow> \<exists>m. safeUnlink e p w = (False, emit WARN m w)"
  by (auto simp add: safeUnlink_def existsSync_def statSync_def)

lemma safeUnlink_preserves:
  assumes "fs w q = Some n" and "q \<noteq> p \<or> n = Dir"
  shows "fs (snd (safeUnlink e p w)) q = Some n"
  using assms
  by (auto simp: safeUnlink_def emit_def dest!: unlinkSync_Inr split: sum.splits)

lemma removeExisting_terser_preserves:
  assumes "fs w q = Some n" and "q \<noteq> p \<or> n = Dir"
  shows "fs (snd (removeExisting_terser e p w)) q = Some n"
  using assms safeUnlink_preserves[OF assms] by (simp add: removeExisting_terser_def)

lemma removeExisting_terser_directory:
  "node_at (fs w) p = Some Dir \<Longrightarrow> \<exists>m. removeExisting_terser e p w = (False, emit WARN m w)"
  using safeUnlink_directory[of w p e] by (simp add: removeExisting_terser_def existsSync_def)

lemma replaceOutput_terser_preserves:
  assumes "fs w q = Some n" and "q \<noteq> outputPath \<or> n = Dir"
  shows "fs (fst (snd (replaceOutput_terser e opts fl code minified outputPath (w, s)))) q = Some n"
proof (cases "ensureOutputDir e (fs w) (dirname outputPath)")
  case (Inl err)
  with assms show ?thesis by (simp add: replaceOutput_terser_def)
next
  case (Inr f1)
  from ensureOutputDir_preserves[OF Inr assms(1)] have f1: "f1 q = Some n" .
  obtain ok w2 where r: "removeExisting_terser e outputPath (w\<lparr>fs := f1\<rparr>) = (ok, w2)"
    by (cases "removeExisting_terser e outputPath (w\<lparr>fs := f1\<rparr>)")
  from removeExisting_terser_preserves[of "w\<lparr>fs := f1\<rparr>" q n outputPath e] f1 assms(2) r
  have w2: "fs w2 q = Some n" by simp
  show ?thesis
  proof (cases ok)
    case False
    with Inr r w2 show ?thesis by (simp add: replaceOutput_terser_def emit_def)
  next
    case True
    show ?thesis
    proof (cases "writeFileSync e (fs w2) outputPath minified")
      case (Inl err)
      with \<open>ensureOutputDir e (fs w) (dirname outputPath) = Inr f1\<close> True r w2 show ?thesis
        by (simp add: replaceOutput_terser_def)
    next
      case (Inr f3)
      from writeFileSync_Inr[OF Inr] w2 assms(2) have "f3 q = Some n" by auto
      with \<open>ensureOutputDir e (fs w) (dirname outputPath) = Inr f1\<close> True r Inr show ?thesis
        by (simp add: replaceOutput_terser_def countFile_def emit_def Let_def)
    qed
  qed
qed

lemma replaceOutput_terser_directory:
  assumes "node_at (fs w) outputPath = Some Dir" and "existsSync (fs w) (dirname outputPath)"
  shows "\<exists>m. replaceOutput_terser e opts fl code minified outputPath (w, s) =
           (Inr SkippedNotReplaced, emit WARN (CouldNotReplace outputPath) (emit WARN m w), s)"
proof -
  from assms(1) obtain m where "removeExisting_terser e outputPath w = (False, emit WARN m w)"
    using removeExisting_terser_directory by blast
  with assms(2) show ?thesis
    by (auto simp add: replaceOutput_terser_def ensureOutputDir_existing)
qed

text \<open>One file's step of the terser draft keeps every directory of the tree and every
  entry other than the destination.\<close>

lemma tryFile_terser_preserves:
  assumes "fs w q = Some n" and "q \<noteq> outputPathOf opts outRoot fl \<or> n = Dir"
  shows "fs (fst (snd (tryFile_terser e opts srcDir outRoot fl (w, s)))) q = Some n"
  using assms replaceOutput_terser_preserves[OF assms, of e opts fl _ _ s]
  by (simp add: tryFile_terser_def Let_def emit_def split: sum.splits option.splits)

text \<open>With a directory at the destination the step of the terser draft changes no entry
  of the tree, ends without throwing, and logs a warning once the minifier has produced
  text.\<close>

lemma tryFile_terser_directory:
  assumes "node_at (fs w) (outputPathOf opts outRoot fl) = Some Dir"
    and "existsSync (fs w) (dirname (outputPathOf opts outRoot fl))"
    and "readFileSync e (fs w) (join srcDir fl) = Inr code"
    and "minify e code (terserOptions opts) = Inr (Some minified)" and "minified \<noteq> []"
  shows "\<exists>m. tryFile_terser e opts srcDir outRoot fl (w, s) =
           (Inr SkippedNotReplaced,
            emit WARN (CouldNotReplace (outputPathOf opts outRoot fl)) (emit WARN m w), s)"
proof -
  from assms(3) have "existsSync (fs w) (join srcDir fl)"
    by (auto simp: existsSync_def dest: readFileSync_Inr)
  with assms(3,4,5) replaceOutput_terser_directory[OF assms(1,2), of e opts fl code minified s]
  show ?thesis by (simp add: tryFile_terser_def Let_def)
qed

lemma tryFile_terser_empty_result:
  assumes "readFileSync e (fs w) (join srcDir fl) = Inr code"
    and "minify e code (terserOptions opts) = Inr r" and "r = None \<or> r = Some []"
  shows "tryFile_terser e opts srcDir outRoot fl (w, s) =
           (Inr SkippedEmptyResult, emit WARN (TerserReturnedEmpty fl) w, s)"
proof -
  from assms(1) have "existsSync (fs w) (join srcDir fl)"
    by (auto simp: existsSync_def dest: readFileSync_Inr)
  with assms show ?thesis
    by (auto simp add: tryFile_terser_def Let_def)
qed

subsection \<open>Replacing the destination in the esbuild draft\<close>

text \<open>In a tree where the destination exists and its parent is a directory, the esbuild
  draft never reaches the write: \<^verbatim>\<open>unlinkSync\<close> is applied to the parent and throws.\<close>

lemma replaceOutput_esbuild_existing:
  assumes "existsSync (fs w) outputPath" and "node_at (fs w) (dirname outputPath) = Some Dir"
  shows "replaceOutput_esbuild e opts fl code minified outputPath (w, s) =
           (Inl (if io_fault e (Unlink (dirname outputPath)) then EIO (Unlink (dirname outputPath))
                 else EISDIR (Unlink (dirname outputPath))), w, s)"
  using assms
  by (simp add: replaceOutput_esbuild_def removeExisting_esbuild_def existsSync_def unlinkSync_def)

lemma replaceOutput_esbuild_missing_directory:
  "\<not> existsSync (fs w) (dirname outputPath) \<Longrightarrow>
     replaceOutput_esbuild e opts fl code minified outputPath (w, s) =
       (Inl (TypeError ''require(...).mkDirSync is not a function''), w, s)"
  by (simp add: replaceOutput_esbuild_def)

subsection \<open>What a counted file is\<close>

lemma countFile_fs: "fs (fst (countFile opts fl code minified (w, s))) = fs w"
  by (simp add: countFile_def Let_def emit_def)


lemma replaceOutput_terser_Minified:
  assumes "fst (replaceOutput_terser e opts fl code minified outputPath (w, s)) = Inr (Minified before after)"
  shows "before = length code \<and> after = length minified \<and>
         fs (fst (snd (replaceOutput_terser e opts fl code minified outputPath (w, s)))) outputPath
           = Some (File minified)"
  using assms
  by (auto simp: replaceOutput_terser_def countFile_fs split: sum.splits prod.splits bool.splits
      dest: writeFileSync_Inr)

lemma tryFile_terser_Minified:
  assumes "fst (tryFile_terser e opts srcDir outRoot fl (w, s)) = Inr (Minified before after)"
  shows "\<exists>code minified.
           readFileSync e (fs w) (join srcDir fl) = Inr code \<and>
           minify e code (terserOptions opts) = Inr (Some minified) \<and>
           before = length code \<and> after = length minified \<and>
           fs (fst (snd (tryFile_terser e opts srcDir outRoot fl (w, s)))) (outputPathOf opts outRoot fl)
             = Some (File minified)"
  using assms
  by (auto simp: tryFile_terser_def Let_def split: if_splits sum.splits option.splits
      dest: replaceOutput_terser_Minified)

lemma replaceOutput_esbuild_Minified:
  assumes "fst (replaceOutput_esbuild e opts fl code minified outputPath (w, s)) = Inr (Minified before after)"
  shows "before = length code \<and> after = length minified \<and>
         fs (fst (snd (replaceOutput_esbuild e opts fl code minified outputPath (w, s)))) outputPath
           = Some (File minified)"
  using assms
  by (auto simp: replaceOutput_esbuild_def countFile_fs split: if_splits sum.splits
      dest: writeFileSync_Inr)

lemma tryFile_esbuild_Minified:
  assumes "fst (tryFile_esbuild e opts srcDir outRoot fl (w, s)) = Inr (Minified before after)"
  shows "\<exists>code b minified.
           readFileSync e (fs w) (join srcDir fl) = Inr code \<and>
           esBuildOptions opts = Some b \<and>
           transformSync e code (b(''loader'' \<mapsto> pickLoader b fl)) = Inr minified \<and>
           before = length code \<and> after = length minified \<and>
           fs (fst (snd (tryFile_esbuild e opts srcDir outRoot fl (w, s)))) (outputPathOf opts outRoot fl)
             = Some (File minified)"
  using assms
  by (auto simp: tryFile_esbuild_def Let_def split: if_splits sum.splits option.splits
      dest: replaceOutput_esbuild_Minified)

subsection \<open>The counters after one file and after the loop\<close>





lemma minifyFiles_length: "length (fst (minifyFiles body fls ws)) = length fls"
  by (induction fls arbitrary: ws) (auto simp: Let_def split: prod.splits sum.splits)

lemma minifyFiles_append:
  "minifyFiles body (xs @ ys) ws =
     (fst (minifyFiles body xs ws) @ fst (minifyFiles body ys (snd (minifyFiles body xs ws))),
      snd (minifyFiles body ys (snd (minifyFiles body xs ws))))"
  by (induction xs arbitrary: ws) (auto simp: Let_def split: prod.splits sum.splits)

text \<open>A file whose body throws costs the later files nothing: they are processed from
  the world the failed body left, with one \<^verbatim>\<open>console.error\<close> line added.\<close>

lemma minifyFiles_after_failure:
  assumes "body f (snd (minifyFiles body before ws)) = (Inl err, w, s)"
  shows "snd (minifyFiles body (before @ f # rest) ws) =
           snd (minifyFiles body rest (emit ERROR (ErrorMinifying f err) w, s))"
  using assms by (simp add: minifyFiles_append Let_def)




subsection \<open>When the hook returns\<close>

lemma writeBundle_returns:
  "sourceDir opts = Some sd \<Longrightarrow> \<exists>w'. writeBundle body e opts b w = Inr w'"
  by (simp add: writeBundle_def Let_def split: sum.splits)

lemma writeBundle_throws_iff:
  "(\<exists>err. writeBundle body e opts b w = Inl err) \<longleftrightarrow>
     shouldProcessBundle b (framework opts) \<and> sourceDir opts = None"
proof (cases "sourceDir opts")
  case None
  then show ?thesis by (simp add: writeBundle_def)
next
  case (Some sd)
  then obtain w' where "writeBundle body e opts b w = Inr w'"
    using writeBundle_returns by blast
  with Some show ?thesis by simp
qed

text \<open>A failure to list the source directory is logged and ends the run.\<close>

lemma writeBundle_glob_failure:
  assumes "shouldProcessBundle b (framework opts)" and "sourceDir opts = Some sd"
    and "dir_or_empty b \<noteq> []"
    and "glob_files e (fs w) (files opts) (join (segments (cwd e)) sd) = Inl err"
  shows "writeBundle body e opts b w =
           Inr (emit ERROR (PluginError err)
                  (if is_verbose opts then emit LOG (LookingForStaticFiles sd (framework opts)) w else w))"
  using assms by (simp add: writeBundle_def Let_def emit_def)

text \<open>A run in which the first file makes the minifier throw: the error is logged, the
  second file is minified and written, and the hook returns.\<close>

lemma failing_file_does_not_stop_the_run:
  "writeBundle_esbuild picky_env (minifyStatic_esbuild None no_options_esbuild) \<lparr>dir = Some ''dist''\<rparr>
     \<lparr>fs = fs_with_bad_source, console = []\<rparr>
   = Inr \<lparr>fs = fs_with_bad_source([''proj'', ''dist'', ''a.js''] \<mapsto> File ''var x=1;''),
          console = [(ERROR, ErrorMinifying ''bad.js'' (Thrown ''Unexpected end of file'')),
                     (LOG, MinifiedSummary 1 None)]\<rparr> \<and>
   writeBundle_terser picky_env (minifyStatic_terser None no_options_terser) \<lparr>dir = Some ''dist''\<rparr>
     \<lparr>fs = fs_with_bad_source, console = []\<rparr>
   = Inr \<lparr>fs = fs_with_bad_source([''proj'', ''dist'', ''a.js''] \<mapsto> File ''var x=1;''),
          console = [(ERROR, ErrorMinifying ''bad.js'' (Thrown ''Unexpected token'')),
                     (LOG, MinifiedSummary 1 None)]\<rparr>"
  by (simp add: run_defs cfg_defs fs_defs path_defs demo_defs picky_env_def fs_with_bad_source_def Let_def)

text \<open>A source directory given as a string, or not given at all, reaches the hook as a
  string, so the hook returns.\<close>

lemma minifyStatic_sourceDir_defined:
  "user_sourceDir ue \<noteq> Undefined \<Longrightarrow> sourceDir (minifyStatic_esbuild manifest ue) \<noteq> None"
  "user_sourceDir ut \<noteq> Undefined \<Longrightarrow> sourceDir (minifyStatic_terser manifest ut) \<noteq> None"
  by (cases "user_sourceDir ue"; simp add: minifyStatic_esbuild_def Let_def)
     (cases "user_sourceDir ut"; simp add: minifyStatic_terser_def Let_def)

text \<open>The terser draft merges the option bag key by key.\<close>

lemma minifyStatic_terser_merges:
  "terserOptions (minifyStatic_terser manifest u) k =
     (case spread_bag (user_terserOptions u) k of
        None \<Rightarrow> default_terserOptions k
      | Some v \<Rightarrow> Some v)"
  by (simp add: minifyStatic_terser_def Let_def map_add_def)

section \<open>The claims\<close>

subsection \<open>C1: a directory at the destination\<close>

text \<open>
  Claim C1. When the destination of a selected file already exists as a directory, the
  step leaves the directory and its contents untouched, logs a warning and does not throw,
  and only the destination regular file itself, never its parent directory, is deleted
  before the write.

  The terser draft does this (\<open>tryFile_terser_directory\<close>, \<open>tryFile_terser_preserves\<close>, and
  the run below). The esbuild draft of \<^verbatim>\<open>src/index.ts\<close> does not: it hands the parent
  directory to \<^verbatim>\<open>unlinkSync\<close>. In the project below \<^verbatim>\<open>/proj/dist/a.js\<close> is a directory in
  the first run and a regular file in the second; both runs end with \<^verbatim>\<open>console.error\<close>
  reporting the failed unlink of \<^verbatim>\<open>/proj/dist\<close>, no warning is logged, and the regular file
  is neither deleted nor replaced.
\<close>

theorem esbuild_unlinks_parent_directory:
  "writeBundle_esbuild demo_env (minifyStatic_esbuild None no_options_esbuild) \<lparr>dir = Some ''dist''\<rparr>
     \<lparr>fs = (fs_with_source ''var x=1;   // comment'')([''proj'', ''dist'', ''a.js''] \<mapsto> Dir), console = []\<rparr>
   = Inr \<lparr>fs = (fs_with_source ''var x=1;   // comment'')([''proj'', ''dist'', ''a.js''] \<mapsto> Dir),
          console = [(ERROR, ErrorMinifying ''a.js'' (EISDIR (Unlink [''proj'', ''dist''])))]\<rparr> \<and>
   writeBundle_esbuild demo_env (minifyStatic_esbuild None no_options_esbuild) \<lparr>dir = Some ''dist''\<rparr>
     \<lparr>fs = (fs_with_source ''var x=1;   // comment'')([''proj'', ''dist'', ''a.js''] \<mapsto> File ''old''),
      console = []\<rparr>
   = Inr \<lparr>fs = (fs_with_source ''var x=1;   // comment'')([''proj'', ''dist'', ''a.js''] \<mapsto> File ''old''),
          console = [(ERROR, ErrorMinifying ''a.js'' (EISDIR (Unlink [''proj'', ''dist''])))]\<rparr>"
  by (simp add: run_defs cfg_defs fs_defs path_defs demo_defs Let_def)

text \<open>The same two trees under the terser draft: the directory stays and two warnings are
  logged; the regular file is unlinked and replaced.\<close>

lemma terser_keeps_directory_destination:
  "writeBundle_terser demo_env (minifyStatic_terser None no_options_terser) \<lparr>dir = Some ''dist''\<rparr>
     \<lparr>fs = (fs_with_source ''var x=1;   // comment'')([''proj'', ''dist'', ''a.js''] \<mapsto> Dir), console = []\<rparr>
   = Inr \<lparr>fs = (fs_with_source ''var x=1;   // comment'')([''proj'', ''dist'', ''a.js''] \<mapsto> Dir),
          console = [(WARN, CannotUnlinkDirectory [''proj'', ''dist'', ''a.js'']),
                     (WARN, CouldNotReplace [''proj'', ''dist'', ''a.js''])]\<rparr>"
  by (simp add: run_defs cfg_defs fs_defs path_defs demo_defs Let_def)

lemma terser_replaces_file_destination:
  "writeBundle_terser demo_env (minifyStatic_terser None no_options_terser) \<lparr>dir = Some ''dist''\<rparr>
     \<lparr>fs = (fs_with_source ''var x=1;   // comment'')([''proj'', ''dist'', ''a.js''] \<mapsto> File ''old''),
      console = []\<rparr>
   = Inr \<lparr>fs = (fs_with_source ''var x=1;   // comment'')([''proj'', ''dist'', ''a.js''] \<mapsto> File ''var x=1;''),
          console = [(LOG, MinifiedSummary 1 None)]\<rparr>"
  by (simp add: run_defs cfg_defs fs_defs path_defs demo_defs Let_def)

subsection \<open>C2: when the detector is consulted\<close>

text \<open>
  Claim C2. If the user's framework option is \<^verbatim>\<open>'auto'\<close> or unset, the framework detector
  determines the resolved framework; otherwise the user's literal value is used.

  Both drafts consult the detector only for the literal \<^verbatim>\<open>'auto'\<close>; an unset option
  resolves to \<^verbatim>\<open>'vanilla'\<close> whatever the manifest declares. With a manifest that names
  SvelteKit and no options at all, the detector would answer \<^verbatim>\<open>sveltekit\<close>, yet the
  resolved framework is \<^verbatim>\<open>vanilla\<close> and the source directory \<^verbatim>\<open>public\<close>.
\<close>

theorem minifyStatic_unset_framework_not_detected:
  "detectFramework (Some kit_manifest) = SvelteKit \<and>
   framework (minifyStatic_esbuild (Some kit_manifest) no_options_esbuild) = Vanilla \<and>
   sourceDir (minifyStatic_esbuild (Some kit_manifest) no_options_esbuild) = Some ''public'' \<and>
   framework (minifyStatic_terser (Some kit_manifest) no_options_terser) = Vanilla \<and>
   sourceDir (minifyStatic_terser (Some kit_manifest) no_options_terser) = Some ''public''"
  by (simp add: detectFramework_def dep_truthy_def cfg_defs demo_defs kit_manifest_def Let_def)

text \<open>The rest of the claim holds: \<^verbatim>\<open>'auto'\<close> asks the detector, and any other given value
  is kept. With \<^verbatim>\<open>framework: 'auto'\<close> the same manifest resolves to \<^verbatim>\<open>sveltekit\<close> and the
  source directory \<^verbatim>\<open>static\<close>.\<close>

lemma detectedFramework_given:
  "detectedFramework manifest (Given fw) = (if fw = Auto then detectFramework manifest else fw)"
  by (cases fw) simp_all

lemma minifyStatic_auto_detects:
  "framework (minifyStatic_esbuild (Some kit_manifest) (no_options_esbuild\<lparr>user_framework := Given Auto\<rparr>))
     = SvelteKit \<and>
   sourceDir (minifyStatic_esbuild (Some kit_manifest) (no_options_esbuild\<lparr>user_framework := Given Auto\<rparr>))
     = Some ''static'' \<and>
   framework (minifyStatic_terser (Some kit_manifest) (no_options_terser\<lparr>user_framework := Given Auto\<rparr>))
     = SvelteKit \<and>
   sourceDir (minifyStatic_terser (Some kit_manifest) (no_options_terser\<lparr>user_framework := Given Auto\<rparr>))
     = Some ''static''"
  by (simp add: detectFramework_def dep_truthy_def cfg_defs demo_defs kit_manifest_def Let_def)

subsection \<open>C3: which build outputs are processed\<close>


subsection \<open>C4: errors that leave the hook\<close>

text \<open>
  Claim C4. A failure while one file is processed is caught and does not keep the
  remaining files from being processed, and no error thrown inside the hook ever reaches
  the bundler.

  The loop is resilient (\<open>minifyFiles_after_failure\<close>, \<open>minifyFiles_length\<close>,
  \<open>failing_file_does_not_stop_the_run\<close>), a failed listing is logged
  (\<open>writeBundle_glob_failure\<close>), and the hook returns whenever the source directory of the
  merged options is a string (\<open>writeBundle_returns\<close>, \<open>writeBundle_throws_iff\<close>,
  \<open>minifyStatic_sourceDir_defined\<close>). But \<^verbatim>\<open>join(process.cwd(),
  options.sourceDir)\<close> stands before the \<^verbatim>\<open>try\<close> block, and the spread of the user's
  options overwrites the defaulted \<^verbatim>\<open>sourceDir\<close> with an explicitly undefined one: for
  \<^verbatim>\<open>minifyStatic({sourceDir: undefined})\<close> the hook of either draft throws a \<^verbatim>\<open>TypeError\<close>.
\<close>

theorem writeBundle_undefined_sourceDir_throws:
  "writeBundle_esbuild demo_env
      (minifyStatic_esbuild None (no_options_esbuild\<lparr>user_sourceDir := Undefined\<rparr>))
      \<lparr>dir = Some ''dist''\<rparr> \<lparr>fs = fs_with_source ''var x=1;'', console = []\<rparr>
     = Inl (TypeError ''The path argument must be of type string. Received undefined'') \<and>
   writeBundle_terser demo_env
      (minifyStatic_terser None (no_options_terser\<lparr>user_sourceDir := Undefined\<rparr>))
      \<lparr>dir = Some ''dist''\<rparr> \<lparr>fs = fs_with_source ''var x=1;'', console = []\<rparr>
     = Inl (TypeError ''The path argument must be of type string. Received undefined'')"
  by (simp add: run_defs cfg_defs demo_defs Let_def)

subsection \<open>C5: an empty result of the transformer\<close>

text \<open>
  Claim C5. If the transformer yields no output text for a file, the file is recorded as
  skipped, a warning is logged, nothing is written to the destination, and the loop goes
  on.

  The terser draft does this (\<open>tryFile_terser_empty_result\<close>, and the run below). The
  esbuild draft has no such check: for a source file holding only a comment, minified
  with \<^verbatim>\<open>esBuildOptions: {minify: true}\<close>, the transformer's empty text is written to
  \<^verbatim>\<open>/proj/dist/a.js\<close>, the file is counted as minified, and no warning is logged.
\<close>

theorem esbuild_writes_empty_output:
  "writeBundle_esbuild demo_env
     (minifyStatic_esbuild None (no_options_esbuild\<lparr>user_esBuildOptions := Given [''minify'' \<mapsto> JBool True]\<rparr>))
     \<lparr>dir = Some ''dist''\<rparr>
     \<lparr>fs = fs_with_source ''// only a comment'', console = []\<rparr>
   = Inr \<lparr>fs = (fs_with_source ''// only a comment'')([''proj'', ''dist'', ''a.js''] \<mapsto> File []),
          console = [(LOG, MinifiedSummary 1 None)]\<rparr>"
  by (simp add: run_defs cfg_defs fs_defs path_defs demo_defs Let_def)

lemma terser_skips_empty_output:
  "writeBundle_terser demo_env (minifyStatic_terser None no_options_terser) \<lparr>dir = Some ''dist''\<rparr>
     \<lparr>fs = fs_with_source ''// only a comment'', console = []\<rparr>
   = Inr \<lparr>fs = fs_with_source ''// only a comment'',
          console = [(WARN, TerserReturnedEmpty ''a.js'')]\<rparr>"
  by (simp add: run_defs cfg_defs fs_defs path_defs demo_defs Let_def)

subsection \<open>C6: merging the transformer options\<close>

text \<open>
  Claim C6. The transformer options are merged with the defaults key by key: a key the
  user gives overrides or extends the defaults, and every key the user does not give
  keeps its default.

  The terser draft does this (\<open>minifyStatic_terser_merges\<close>). The esbuild draft spreads the
  user's options over the defaults without merging the bag: a user who gives only
  \<^verbatim>\<open>esBuildOptions: {target: 'es2015'}\<close> gets exactly that bag, in which the default
  \<^verbatim>\<open>minify: true\<close> is gone.
\<close>

theorem minifyStatic_esbuild_partial_bag:
  "esBuildOptions (minifyStatic_esbuild None
      (no_options_esbuild\<lparr>user_esBuildOptions := Given [''target'' \<mapsto> JStr ''es2015'']\<rparr>))
     = Some [''target'' \<mapsto> JStr ''es2015''] \<and>
   default_esBuildOptions ''minify'' = Some (JBool True) \<and>
   [''target'' \<mapsto> JStr ''es2015''] ''minify'' = None"
  by (simp add: cfg_defs demo_defs Let_def)

subsection \<open>C7: the run summary\<close>




subsection \<open>C8: the framework detector\<close>

text \<open>
  Claim C8, as stated: the detector returns one of the four frameworks, first match wins
  in the order SvelteKit, React, Vue, with a SvelteKit dependency key winning over React
  or Vue keys that are present too, and \<^verbatim>\<open>vanilla\<close> when the manifest cannot be read.

  The detector does not ask whether a key is present but whether its value is truthy. A
  manifest that lists \<^verbatim>\<open>@sveltejs/kit\<close> with the empty version string (any version, for
  the package manager) next to \<^verbatim>\<open>react\<close> is detected as React.
\<close>

theorem detectFramework_empty_version_counterexample:
  "''@sveltejs/kit'' \<in> dom (dependencies \<lparr>dependencies = [''@sveltejs/kit'' \<mapsto> [], ''react'' \<mapsto> ''^18.2.0''],
                                           devDependencies = Map.empty\<rparr>) \<and>
   detectFramework (Some \<lparr>dependencies = [''@sveltejs/kit'' \<mapsto> [], ''react'' \<mapsto> ''^18.2.0''],
                          devDependencies = Map.empty\<rparr>) = React"
  by (simp add: detectFramework_def dep_truthy_def Let_def)

text \<open>
  Claim C8, amended. A package counts as declared when the merged dependencies, the
  development section overriding the runtime one, give it a truthy value, that is a
  non-empty version string (\<open>dep_truthy_iff\<close>). The detector returns one of the four
  frameworks: \<^verbatim>\<open>vanilla\<close> when the manifest cannot be read or parsed; \<^verbatim>\<open>sveltekit\<close> when
  \<^verbatim>\<open>@sveltejs/kit\<close> is declared, whatever else is; otherwise \<^verbatim>\<open>react\<close> when \<^verbatim>\<open>react\<close> or
  \<^verbatim>\<open>@vitejs/plugin-react\<close> is declared, whatever Vue package is; otherwise \<^verbatim>\<open>vue\<close> when
  \<^verbatim>\<open>vue\<close> or \<^verbatim>\<open>@vitejs/plugin-vue\<close> is declared; otherwise \<^verbatim>\<open>vanilla\<close>.
\<close>

theorem detectFramework_first_truthy_match:
  "detectFramework None = Vanilla \<and>
   detectFramework (Some pj) \<in> {SvelteKit, React, Vue, Vanilla} \<and>
   (dep_truthy (dependencies pj ++ devDependencies pj) ''@sveltejs/kit''
      \<longrightarrow> detectFramework (Some pj) = SvelteKit) \<and>
   (\<not> dep_truthy (dependencies pj ++ devDependencies pj) ''@sveltejs/kit'' \<and>
    (dep_truthy (dependencies pj ++ devDependencies pj) ''react'' \<or>
     dep_truthy (dependencies pj ++ devDependencies pj) ''@vitejs/plugin-react'')
      \<longrightarrow> detectFramework (Some pj) = React) \<and>
   (\<not> dep_truthy (dependencies pj ++ devDependencies pj) ''@sveltejs/kit'' \<and>
    \<not> dep_truthy (dependencies pj ++ devDependencies pj) ''react'' \<and>
    \<not> dep_truthy (dependencies pj ++ devDependencies pj) ''@vitejs/plugin-react'' \<and>
    (dep_truthy (dependencies pj ++ devDependencies pj) ''vue'' \<or>
     dep_truthy (dependencies pj ++ devDependencies pj) ''@vitejs/plugin-vue'')
      \<longrightarrow> detectFramework (Some pj) = Vue) \<and>
   (\<not> dep_truthy (dependencies pj ++ devDependencies pj) ''@sveltejs/kit'' \<and>
    \<not> dep_truthy (dependencies pj ++ devDependencies pj) ''react'' \<and>
    \<not> dep_truthy (dependencies pj ++ devDependencies pj) ''@vitejs/plugin-react'' \<and>
    \<not> dep_truthy (dependencies pj ++ devDependencies pj) ''vue'' \<and>
    \<not> dep_truthy (dependencies pj ++ devDependencies pj) ''@vitejs/plugin-vue''
      \<longrightarrow> detectFramework (Some pj) = Vanilla)"
  by (simp add: detectFramework_def Let_def)

theorem detectFramework_first_truthy_match_witness:
  "detectFramework (Some \<lparr>dependencies = [''react'' \<mapsto> ''^18.2.0'', ''vue'' \<mapsto> ''^3.4.0''],
                          devDependencies = [''@sveltejs/kit'' \<mapsto> ''^2.0.0'']\<rparr>) = SvelteKit \<and>
   detectFramework (Some \<lparr>dependencies = [''react'' \<mapsto> ''^18.2.0'', ''vue'' \<mapsto> ''^3.4.0''],
                          devDependencies = Map.empty\<rparr>) = React"
  using detectFramework_first_truthy_match
          [of "\<lparr>dependencies = [''react'' \<mapsto> ''^18.2.0'', ''vue'' \<mapsto> ''^3.4.0''],
                 devDependencies = [''@sveltejs/kit'' \<mapsto> ''^2.0.0'']\<rparr>"]
        detectFramework_first_truthy_match
          [of "\<lparr>dependencies = [''react'' \<mapsto> ''^18.2.0'', ''vue'' \<mapsto> ''^3.4.0''],
                 devDependencies = Map.empty\<rparr>"]
  by (simp add: dep_truthy_def)

subsection \<open>C9: the resolved framework\<close>

text \<open>
  Claim C9. For every user configuration and every manifest, the framework of the merged
  options is never \<^verbatim>\<open>'auto'\<close>: it is one of \<^verbatim>\<open>sveltekit\<close>, \<^verbatim>\<open>react\<close>, \<^verbatim>\<open>vue\<close>, \<^verbatim>\<open>vanilla\<close>.
\<close>

theorem minifyStatic_framework_never_auto:
  "framework (minifyStatic_esbuild manifest ue) \<in> {SvelteKit, React, Vue, Vanilla} \<and>
   framework (minifyStatic_terser manifest ut) \<in> {SvelteKit, React, Vue, Vanilla}"
proof -
  have "fw \<noteq> Auto \<Longrightarrow> fw \<in> {SvelteKit, React, Vue, Vanilla}" for fw
    by (cases fw) simp_all
  then show ?thesis
    by (simp add: minifyStatic_esbuild_def minifyStatic_terser_def Let_def detectedFramework_not_Auto)
qed

subsection \<open>C10: an output descriptor without a directory\<close>



end
